theory Spec2Isabelle
  imports Complex_Main
begin

section \<open>Coordinates and facings\<close>

text \<open>
  \<^verbatim>\<open>Coords\<close> is a named tuple of two Python integers; \<^verbatim>\<open>add_coords\<close> and
  \<^verbatim>\<open>sub_coords\<close> work componentwise.
\<close>

type_synonym coords = "int \<times> int"

definition add_coords :: "coords \<Rightarrow> coords \<Rightarrow> coords" where
  "add_coords a b = (fst a + fst b, snd a + snd b)"

definition sub_coords :: "coords \<Rightarrow> coords \<Rightarrow> coords" where
  "sub_coords a b = (fst a - fst b, snd a - snd b)"

text \<open>The exceptions the modelled code can raise.\<close>

datatype exn =
  KeyError | AssertionError | ValueError | IndexError | AttributeError | TypeError | OverflowError

definition exn_bind :: "exn + 'a \<Rightarrow> ('a \<Rightarrow> exn + 'b) \<Rightarrow> exn + 'b" where
  "exn_bind m f = (case m of Inl e \<Rightarrow> Inl e | Inr a \<Rightarrow> f a)"

text \<open>
  Modelled from the spec: the enumeration \<^verbatim>\<open>Facing\<close> of \<^verbatim>\<open>gupb.model.characters\<close>
  is not among the source files. Section 3 of the specification gives it as the four
  values Up, Right, Down, Left, cyclic in that order, with \<^verbatim>\<open>turn_left\<close> and
  \<^verbatim>\<open>turn_right\<close> stepping to the neighbour in the cycle and each value carrying
  a unit delta vector.
\<close>

datatype facing = UP | DOWN | LEFT | RIGHT

text \<open>
  Modelled from the spec: the value of a member of \<^verbatim>\<open>Facing\<close>, its unit delta
  vector (section 3); the deltas are those of a screen grid, where y grows downwards.
\<close>

fun facing_value :: "facing \<Rightarrow> coords" where
  "facing_value UP = (0, -1)"
| "facing_value DOWN = (0, 1)"
| "facing_value LEFT = (-1, 0)"
| "facing_value RIGHT = (1, 0)"

text \<open>
  Modelled from the spec: \<^verbatim>\<open>Facing.turn_left\<close> and \<^verbatim>\<open>Facing.turn_right\<close>, one step
  backwards and one step forwards in the cycle Up, Right, Down, Left (section 3).
\<close>

fun turn_left :: "facing \<Rightarrow> facing" where
  "turn_left UP = LEFT"
| "turn_left LEFT = DOWN"
| "turn_left DOWN = RIGHT"
| "turn_left RIGHT = UP"

fun turn_right :: "facing \<Rightarrow> facing" where
  "turn_right UP = RIGHT"
| "turn_right RIGHT = DOWN"
| "turn_right DOWN = LEFT"
| "turn_right LEFT = UP"

text \<open>
  \<^verbatim>\<open>Facing(c)\<close>, the enumeration's lookup by value: \<^verbatim>\<open>ValueError\<close> when no member
  has the value \<open>c\<close>.
\<close>

definition Facing :: "coords \<Rightarrow> exn + facing" where
  "Facing c =
     (if c = facing_value UP then Inr UP
      else if c = facing_value DOWN then Inr DOWN
      else if c = facing_value LEFT then Inr LEFT
      else if c = facing_value RIGHT then Inr RIGHT
      else Inl ValueError)"

section \<open>The cost of one step\<close>

text \<open>
  The number of left turns, and of right turns, that lead from the facing \<open>f\<close> to the
  facing \<open>e\<close>: what the loops below have still to do.
\<close>

fun left_turns :: "facing \<Rightarrow> facing \<Rightarrow> nat" where
  "left_turns f e = (if f = e then 0 else if turn_left f = e then 1
     else if turn_left (turn_left f) = e then 2 else 3)"

fun right_turns :: "facing \<Rightarrow> facing \<Rightarrow> nat" where
  "right_turns f e = (if f = e then 0 else if turn_right f = e then 1
     else if turn_right (turn_right f) = e then 2 else 3)"

text \<open>
  The two \<^verbatim>\<open>while\<close> loops of \<^verbatim>\<open>move_one_tile\<close>: turn until the exit facing is
  reached, counting the turns. The arguments are the loop variables
  (\<^verbatim>\<open>facing_turning_left\<close> and \<^verbatim>\<open>left_actions\<close>, or their right-hand
  counterparts) and the exit facing.
\<close>

function turning_left :: "facing \<Rightarrow> facing \<Rightarrow> int \<Rightarrow> int" where
  "turning_left facing_turning_left exit_facing left_actions =
     (if facing_turning_left \<noteq> exit_facing
      then turning_left (turn_left facing_turning_left) exit_facing (left_actions + 1)
      else left_actions)"
  by pat_completeness auto
termination
proof (relation "measure (\<lambda>(f, e, n). left_turns f e)")
  show "wf (measure (\<lambda>(f, e, n). left_turns f e))" by simp
next
  fix f e :: facing and n :: int
  assume "f \<noteq> e"
  then show "((turn_left f, e, n + 1), (f, e, n)) \<in> measure (\<lambda>(f, e, n). left_turns f e)"
    by (cases f; cases e) simp_all
qed

function turning_right :: "facing \<Rightarrow> facing \<Rightarrow> int \<Rightarrow> int" where
  "turning_right facing_turning_right exit_facing right_actions =
     (if facing_turning_right \<noteq> exit_facing
      then turning_right (turn_right facing_turning_right) exit_facing (right_actions + 1)
      else right_actions)"
  by pat_completeness auto
termination
proof (relation "measure (\<lambda>(f, e, n). right_turns f e)")
  show "wf (measure (\<lambda>(f, e, n). right_turns f e))" by simp
next
  fix f e :: facing and n :: int
  assume "f \<noteq> e"
  then show "((turn_right f, e, n + 1), (f, e, n)) \<in> measure (\<lambda>(f, e, n). right_turns f e)"
    by (cases f; cases e) simp_all
qed

text \<open>
  \<^verbatim>\<open>move_one_tile\<close>: the left-hand count starts at 0 and the right-hand count at 1.
\<close>

definition move_one_tile :: "facing \<Rightarrow> coords \<Rightarrow> coords \<Rightarrow> exn + (int \<times> facing)" where
  "move_one_tile starting_facing coord_0 coord_1 =
     exn_bind (Facing (sub_coords coord_1 coord_0)) (\<lambda>exit_facing.
       let left_actions = turning_left starting_facing exit_facing 0;
           right_actions = turning_right starting_facing exit_facing 1;
           actions = (if left_actions > right_actions then right_actions else left_actions)
       in Inr (actions + 1, exit_facing))"

section \<open>Weapons, tiles and snapshots\<close>

text \<open>
  The five weapon classes the module imports. \<^verbatim>\<open>WEAPONS\<close> maps a weapon name to an
  instance; \<^verbatim>\<open>WEAPONS[name]\<close> raises \<^verbatim>\<open>KeyError\<close> on a missing name and
  \<^verbatim>\<open>WEAPONS.get(name)\<close> gives \<^verbatim>\<open>None\<close>.
\<close>

datatype weapon = Bow | Axe | Sword | Knife | Amulet

definition WEAPONS :: "string \<Rightarrow> weapon option" where
  "WEAPONS = map_of
     [(''bow'', Bow), (''axe'', Axe), (''sword'', Sword), (''knife'', Knife), (''amulet'', Amulet)]"

definition WEAPON_TO_INT :: "string \<Rightarrow> int option" where
  "WEAPON_TO_INT = map_of
     [(''bow'', 0), (''axe'', 1), (''sword'', 2), (''knife'', 3), (''amulet'', 4)]"

fun FACING_TO_INT :: "facing \<Rightarrow> int" where
  "FACING_TO_INT UP = 0"
| "FACING_TO_INT RIGHT = 1"
| "FACING_TO_INT LEFT = 2"
| "FACING_TO_INT DOWN = 3"

definition MAX_HEALTH :: int where
  "MAX_HEALTH = 5"

text \<open>
  \<^verbatim>\<open>weapon_ranking\<close> tests the classes in turn and falls through to 0; its argument
  may be \<^verbatim>\<open>None\<close> (what \<^verbatim>\<open>WEAPONS.get\<close> gives for a missing name), which is an
  instance of none of them.
\<close>

fun weapon_ranking :: "weapon option \<Rightarrow> int" where
  "weapon_ranking (Some Bow) = 10"
| "weapon_ranking (Some Amulet) = 8"
| "weapon_ranking (Some Axe) = 6"
| "weapon_ranking (Some Sword) = 6"
| "weapon_ranking _ = 0"

text \<open>
  The engine's descriptions, as the module reads them. A weapon description has the
  single field \<^verbatim>\<open>name\<close>, so it is modelled by that string: \<open>weapon c\<close> stands for
  \<^verbatim>\<open>c.weapon.name\<close> and \<open>loot tile\<close> for \<^verbatim>\<open>tile.loot.name\<close> (when there is loot).
  A description is a non-empty named tuple, hence true in a Python condition exactly
  when it is not \<^verbatim>\<open>None\<close>.
\<close>

type_synonym weapon_description = string

record champion_description =
  controller_name :: string
  health :: int
  weapon :: weapon_description
  facing :: facing

record tile_description =
  tile_type :: string
  loot :: "weapon_description option"
  character :: "champion_description option"
  effects :: "string list"

text \<open>
  \<^verbatim>\<open>visible_tiles\<close> is a Python dictionary: it is iterated in insertion order and
  looked up by key, so it is an association list, read with \<open>map_of\<close>.
\<close>

record champion_knowledge =
  position :: coords
  visible_tiles :: "(coords \<times> tile_description) list"

definition getitem :: "('k \<times> 'v) list \<Rightarrow> 'k \<Rightarrow> exn + 'v" where
  "getitem d k = (case map_of d k of None \<Rightarrow> Inl KeyError | Some v \<Rightarrow> Inr v)"

text \<open>
  Modelled from the spec: the weapon classes' method \<^verbatim>\<open>cut_positions\<close> and the
  arena's terrain (\<^verbatim>\<open>gupb.model.weapons\<close>, \<^verbatim>\<open>gupb.model.arenas\<close>) are not among
  the source files. Section 6 of the specification gives the catalog's footprint as a
  function of terrain, position and facing to the affected cells, and nothing more;
  the field \<open>cut_positions\<close> of an arena is that function with the arena's terrain
  applied: \<open>cut_positions a wpn pos f\<close> stands for
  \<^verbatim>\<open>wpn.cut_positions(a.terrain, pos, f)\<close>.
\<close>

record arena =
  name :: string
  menhir_position :: coords
  mist_radius :: int
  cut_positions :: "weapon \<Rightarrow> coords \<Rightarrow> facing \<Rightarrow> coords list"

section \<open>The state of one tick\<close>

text \<open>
  The dataclass \<^verbatim>\<open>State\<close>; its fields carry the prefix \<open>st_\<close> here. The field
  \<open>st_distance_to_menhir\<close> receives the result of \<^verbatim>\<open>np.sqrt\<close>, a floating-point
  number: a float64 is read as the real number it denotes.
\<close>

record state =
  st_map_name :: int
  st_x :: int
  st_y :: int
  st_health :: int
  st_visible_enemies :: int
  st_can_attack_enemy :: bool
  st_facing :: int
  st_weapon :: int
  st_distance_to_menhir :: real
  st_tick :: int

text \<open>
  \<^verbatim>\<open>any(coord for coord in cells if visible_tiles[coord].character)\<close>: the generator
  looks the cells up one by one, and \<^verbatim>\<open>any\<close> stops at the first cell it yields (a
  pair of coordinates is a non-empty tuple, hence true). A cell that is not a key raises
  \<^verbatim>\<open>KeyError\<close> when the generator reaches it.
\<close>

fun any_character :: "(coords \<times> tile_description) list \<Rightarrow> coords list \<Rightarrow> exn + bool" where
  "any_character tiles [] = Inr False"
| "any_character tiles (coord # cells) =
     exn_bind (getitem tiles coord) (\<lambda>tile.
       if character tile \<noteq> None then Inr True else any_character tiles cells)"

text \<open>
  \<^verbatim>\<open>get_state\<close>. Two library functions are its parameters. \<open>np_sqrt n\<close> stands for
  \<^verbatim>\<open>np.sqrt(n)\<close> on the Python integer \<open>n\<close>: the float64 it returns, which is the
  root of \<open>n\<close> rounded and not in general the root itself, or the exception it raises
  on an integer that no 64-bit type holds. \<open>hash\<close> stands for Python's \<^verbatim>\<open>hash\<close> of a
  string, which differs from process to process.
\<close>

definition get_state ::
  "(int \<Rightarrow> exn + real) \<Rightarrow> (string \<Rightarrow> int) \<Rightarrow> champion_knowledge \<Rightarrow> arena \<Rightarrow> int
     \<Rightarrow> exn + state" where
  "get_state np_sqrt hash kn ar tick =
     (let bot_coords = position kn;
          bot_tile = map_of (visible_tiles kn) bot_coords;
          bot_character = (case bot_tile of None \<Rightarrow> None | Some tile \<Rightarrow> character tile);
          bot_weapon = (case bot_character of None \<Rightarrow> ''knife'' | Some c \<Rightarrow> weapon c);
          bot_facing = (case bot_character of None \<Rightarrow> UP | Some c \<Rightarrow> facing c);
          health = (case bot_character of None \<Rightarrow> 5 | Some c \<Rightarrow> health c);
          visible_enemies = int (length
            (filter (\<lambda>(coords, tile). character tile \<noteq> None \<and> coords \<noteq> bot_coords)
               (visible_tiles kn)))
      in
       exn_bind (case WEAPONS bot_weapon of None \<Rightarrow> Inl KeyError | Some wpn \<Rightarrow> Inr wpn) (\<lambda>wpn.
       exn_bind (any_character (visible_tiles kn) (cut_positions ar wpn bot_coords bot_facing))
         (\<lambda>can_attack_enemy.
       exn_bind (case WEAPON_TO_INT bot_weapon of None \<Rightarrow> Inl KeyError | Some i \<Rightarrow> Inr i)
         (\<lambda>weapon.
       let (x, y) = sub_coords bot_coords (menhir_position ar) in
       exn_bind (np_sqrt (x ^ 2 + y ^ 2)) (\<lambda>menhir_distance.
         Inr \<lparr>st_map_name = hash (name ar), st_x = fst bot_coords, st_y = snd bot_coords,
              st_health = health, st_visible_enemies = visible_enemies,
              st_can_attack_enemy = can_attack_enemy,
              st_facing = FACING_TO_INT bot_facing, st_weapon = weapon,
              st_distance_to_menhir = menhir_distance, st_tick = tick\<rparr>)))))"

section \<open>The grid and the path finder\<close>

text \<open>
  Modelled from the spec: the grid and the finder come from the \<^verbatim>\<open>pathfinding\<close>
  library, which is not among the source files. Section 4.1 of the specification gives
  the grid as the walkability of every cell of a rectangle, with a node lookup that
  fails outside the rectangle (\<^verbatim>\<open>grid.node(x, y)\<close>, an \<^verbatim>\<open>IndexError\<close> here); its
  \<^verbatim>\<open>cleanup\<close> resets the marks of an earlier search, of which a pure function has
  none. A node is identified with its coordinates.
\<close>

record grid =
  width :: int
  height :: int
  walkable :: "coords \<Rightarrow> bool"

text \<open>
  Modelled from the spec: the cells of the grid's rectangle, the node lookup
  \<^verbatim>\<open>grid.node(x, y)\<close> and the walkable cardinal neighbours of a cell (section 4.1),
  in the order up, right, down, left.
\<close>

definition inside :: "grid \<Rightarrow> coords \<Rightarrow> bool" where
  "inside g c = (0 \<le> fst c \<and> fst c < width g \<and> 0 \<le> snd c \<and> snd c < height g)"

definition node :: "grid \<Rightarrow> int \<Rightarrow> int \<Rightarrow> exn + coords" where
  "node g x y = (if inside g (x, y) then Inr (x, y) else Inl IndexError)"

definition neighbors :: "grid \<Rightarrow> coords \<Rightarrow> coords list" where
  "neighbors g c =
     filter (\<lambda>n. inside g n \<and> walkable g n)
       [(fst c, snd c - 1), (fst c + 1, snd c), (fst c, snd c + 1), (fst c - 1, snd c)]"

text \<open>
  Modelled from the spec: \<^verbatim>\<open>DijkstraFinder.find_path\<close> of the same library.
  Sections 3 and 4.2 of the specification give it as a uniform-cost search over the
  walkable cardinal neighbours, whose result is the sequence of cells from the start to
  the goal, and the empty sequence when the goal cannot be reached. With all edges of
  weight 1 that is a breadth-first search: \<open>search\<close> takes the open cells in the order
  they were found, each with the reversed path that led to it, and the cells already
  expanded. Among several shortest paths it returns the one found first; the
  specification fixes none.
\<close>

function search ::
  "grid \<Rightarrow> coords \<Rightarrow> (coords \<times> coords list) list \<Rightarrow> coords list \<Rightarrow> coords list" where
  "search g goal [] closed_list = []"
| "search g goal ((c, rpath) # open_list) closed_list =
     (if c = goal then rev rpath
      else if c \<in> set closed_list \<or> \<not> inside g c then search g goal open_list closed_list
      else search g goal
             (open_list @ map (\<lambda>n. (n, n # rpath)) (neighbors g c)) (c # closed_list))"
  by pat_completeness auto

lemma finite_inside: "finite {c. inside g c}"
proof -
  have "{c. inside g c} \<subseteq> {0..<width g} \<times> {0..<height g}"
    by (auto simp: inside_def)
  then show ?thesis
    by (rule finite_subset) simp
qed

termination search
proof (relation "inv_image (finite_psubset <*lex*> less_than)
    (\<lambda>(g, goal, open_list, closed_list). ({c. inside g c} - set closed_list, length open_list))")
  show "wf (inv_image (finite_psubset <*lex*> less_than)
    (\<lambda>(g, goal, open_list, closed_list). ({c. inside g c} - set closed_list, length open_list)))"
    by (intro wf_inv_image wf_lex_prod wf_finite_psubset wf_less_than)
next
  fix g :: grid and goal c :: coords and rpath open_list closed_list
  show "((g, goal, open_list, closed_list), (g, goal, (c, rpath) # open_list, closed_list))
      \<in> inv_image (finite_psubset <*lex*> less_than)
          (\<lambda>(g, goal, open_list, closed_list). ({c. inside g c} - set closed_list, length open_list))"
    by simp
next
  fix g :: grid and goal c :: coords and rpath open_list closed_list
  assume "\<not> (c \<in> set closed_list \<or> \<not> inside g c)"
  then have "{c. inside g c} - set (c # closed_list) \<subset> {c. inside g c} - set closed_list"
    by auto
  then show "((g, goal, open_list @ map (\<lambda>n. (n, n # rpath)) (neighbors g c), c # closed_list),
       (g, goal, (c, rpath) # open_list, closed_list))
      \<in> inv_image (finite_psubset <*lex*> less_than)
          (\<lambda>(g, goal, open_list, closed_list). ({c. inside g c} - set closed_list, length open_list))"
    by (simp add: finite_psubset_def finite_inside)
qed

text \<open>
  Modelled from the spec: \<^verbatim>\<open>finder.find_path(start, end, grid)\<close>, the search started
  with the start cell alone in the open list (section 4.2).
\<close>

definition find_path :: "coords \<Rightarrow> coords \<Rightarrow> grid \<Rightarrow> coords list" where
  "find_path start goal g = search g goal [(start, [start])] []"

section \<open>The class Wisdom\<close>

text \<open>
  The dataclass \<^verbatim>\<open>Wisdom\<close>. Its counter \<^verbatim>\<open>t\<close> is the field \<open>wisdom_t\<close>; its class
  attribute \<^verbatim>\<open>finder\<close> is the one finder above. The current snapshot is optional: an
  attribute read on \<^verbatim>\<open>None\<close> raises \<^verbatim>\<open>AttributeError\<close>.
\<close>

record wisdom =
  arena :: arena
  knowledge :: "champion_knowledge option"
  bot_name :: string
  grid :: grid
  prev_knowledge :: "champion_knowledge option"
  wisdom_t :: int

definition next_knowledge :: "wisdom \<Rightarrow> champion_knowledge \<Rightarrow> wisdom" where
  "next_knowledge w kn =
     w\<lparr>prev_knowledge := knowledge w, knowledge := Some kn, wisdom_t := wisdom_t w + 1\<rparr>"

definition the_knowledge :: "wisdom \<Rightarrow> exn + champion_knowledge" where
  "the_knowledge w = (case knowledge w of None \<Rightarrow> Inl AttributeError | Some kn \<Rightarrow> Inr kn)"

definition the_prev_knowledge :: "wisdom \<Rightarrow> exn + champion_knowledge" where
  "the_prev_knowledge w =
     (case prev_knowledge w of None \<Rightarrow> Inl AttributeError | Some kn \<Rightarrow> Inr kn)"

text \<open>
  The two lines every property of the own tile starts with:
  \<^verbatim>\<open>tile = kn.visible_tiles[coords]\<close> and \<^verbatim>\<open>assert tile.character\<close>.
\<close>

definition standing_character :: "champion_knowledge \<Rightarrow> coords \<Rightarrow> exn + champion_description" where
  "standing_character kn coords =
     exn_bind (getitem (visible_tiles kn) coords) (\<lambda>tile.
       case character tile of None \<Rightarrow> Inl AssertionError | Some c \<Rightarrow> Inr c)"

definition bot_coords :: "wisdom \<Rightarrow> exn + coords" where
  "bot_coords w = exn_bind (the_knowledge w) (\<lambda>kn. Inr (position kn))"

definition prev_bot_coords :: "wisdom \<Rightarrow> exn + coords" where
  "prev_bot_coords w = exn_bind (the_prev_knowledge w) (\<lambda>kn. Inr (position kn))"

definition prev_bot_facing :: "wisdom \<Rightarrow> exn + facing" where
  "prev_bot_facing w =
     exn_bind (the_prev_knowledge w) (\<lambda>pk.
     exn_bind (bot_coords w) (\<lambda>bc.
     exn_bind (standing_character pk bc) (\<lambda>c. Inr (facing c))))"

definition bot_facing :: "wisdom \<Rightarrow> exn + facing" where
  "bot_facing w =
     exn_bind (the_knowledge w) (\<lambda>kn.
     exn_bind (bot_coords w) (\<lambda>bc.
     exn_bind (standing_character kn bc) (\<lambda>c. Inr (facing c))))"

definition bot_health :: "wisdom \<Rightarrow> exn + int" where
  "bot_health w =
     exn_bind (the_knowledge w) (\<lambda>kn.
     exn_bind (bot_coords w) (\<lambda>bc.
     exn_bind (standing_character kn bc) (\<lambda>c. Inr (health c))))"

definition prev_bot_health :: "wisdom \<Rightarrow> exn + int" where
  "prev_bot_health w =
     (case prev_knowledge w of
        None \<Rightarrow> Inr MAX_HEALTH
      | Some pk \<Rightarrow>
          exn_bind (prev_bot_coords w) (\<lambda>pc.
          exn_bind (standing_character pk pc) (\<lambda>c. Inr (health c))))"

definition bot_weapon :: "wisdom \<Rightarrow> exn + weapon" where
  "bot_weapon w =
     exn_bind (the_knowledge w) (\<lambda>kn.
     exn_bind (bot_coords w) (\<lambda>bc.
     exn_bind (standing_character kn bc) (\<lambda>c.
       case WEAPONS (weapon c) of None \<Rightarrow> Inl KeyError | Some wpn \<Rightarrow> Inr wpn)))"

definition enemies_visible :: "wisdom \<Rightarrow> exn + bool" where
  "enemies_visible w =
     exn_bind (the_knowledge w) (\<lambda>kn.
       Inr (list_ex (\<lambda>visible_tile. character visible_tile \<noteq> None)
              (map snd (visible_tiles kn))))"

text \<open>
  The generator of \<^verbatim>\<open>better_weapon_visible\<close>: \<^verbatim>\<open>and\<close> reads \<^verbatim>\<open>self.bot_weapon\<close>
  only for a tile with loot, and \<^verbatim>\<open>any\<close> stops at the first tile that passes.
\<close>

fun better_weapon_among :: "wisdom \<Rightarrow> tile_description list \<Rightarrow> exn + bool" where
  "better_weapon_among w [] = Inr False"
| "better_weapon_among w (tile # tiles) =
     (case loot tile of
        None \<Rightarrow> better_weapon_among w tiles
      | Some loot_name \<Rightarrow>
          exn_bind (bot_weapon w) (\<lambda>wpn.
            if weapon_ranking (WEAPONS loot_name) > weapon_ranking (Some wpn) then Inr True
            else better_weapon_among w tiles))"

definition better_weapon_visible :: "wisdom \<Rightarrow> exn + bool" where
  "better_weapon_visible w =
     exn_bind (the_knowledge w) (\<lambda>kn. better_weapon_among w (map snd (visible_tiles kn)))"

definition will_pick_up_worse_weapon :: "wisdom \<Rightarrow> exn + bool" where
  "will_pick_up_worse_weapon w =
     exn_bind (bot_coords w) (\<lambda>bc.
     exn_bind (bot_facing w) (\<lambda>bf.
     let coords_in_front = add_coords bc (facing_value bf) in
     exn_bind (the_knowledge w) (\<lambda>kn.
     exn_bind (getitem (visible_tiles kn) coords_in_front) (\<lambda>tile.
       case loot tile of
         None \<Rightarrow> Inr False
       | Some loot_name \<Rightarrow>
           let weapon_in_front = WEAPONS loot_name in
           exn_bind (bot_weapon w) (\<lambda>wpn.
             Inr (weapon_ranking weapon_in_front < weapon_ranking (Some wpn)))))))"

definition can_attack_player :: "wisdom \<Rightarrow> exn + bool" where
  "can_attack_player w =
     exn_bind (bot_weapon w) (\<lambda>wpn.
     exn_bind (bot_coords w) (\<lambda>bc.
     exn_bind (bot_facing w) (\<lambda>bf.
     exn_bind (the_knowledge w) (\<lambda>kn.
       any_character (visible_tiles kn) (cut_positions (arena w) wpn bc bf)))))"

text \<open>
  \<^verbatim>\<open>relative_enemies_positions\<close>: the coordinates of the other occupants in the
  dictionary's order, each minus the own coordinates, written pair by pair into a list
  of ten zeros. An assignment to \<^verbatim>\<open>result[i]\<close> with \<open>i\<close> past the end raises
  \<^verbatim>\<open>IndexError\<close>.
\<close>

definition setitem :: "'a list \<Rightarrow> nat \<Rightarrow> 'a \<Rightarrow> exn + 'a list" where
  "setitem xs i v = (if i < length xs then Inr (xs[i := v]) else Inl IndexError)"

fun fill_result :: "coords list \<Rightarrow> nat \<Rightarrow> int list \<Rightarrow> exn + int list" where
  "fill_result [] i result = Inr result"
| "fill_result (c # relative_enemies_coords) i result =
     exn_bind (setitem result (2 * i) (fst c)) (\<lambda>result.
     exn_bind (setitem result (2 * i + 1) (snd c)) (\<lambda>result.
       fill_result relative_enemies_coords (i + 1) result))"

definition enemies_coords :: "champion_knowledge \<Rightarrow> coords \<Rightarrow> coords list" where
  "enemies_coords kn bc =
     map fst (filter (\<lambda>(coords, tile). character tile \<noteq> None \<and> coords \<noteq> bc)
                (visible_tiles kn))"

definition relative_enemies_positions :: "wisdom \<Rightarrow> exn + int list" where
  "relative_enemies_positions w =
     exn_bind (the_knowledge w) (\<lambda>kn.
     exn_bind (bot_coords w) (\<lambda>bc.
       let relative_enemies_coords =
             map (\<lambda>enemy_coord. sub_coords enemy_coord bc) (enemies_coords kn bc)
       in fill_result relative_enemies_coords 0 (replicate 10 0)))"

text \<open>
  \<^verbatim>\<open>find_path_len\<close>: the loop over \<^verbatim>\<open>range(len(path) - 1)\<close> is \<open>walk_path\<close>, which
  carries the facing and the number of steps; a path of fewer than two cells leaves
  both as they are.
\<close>

fun walk_path :: "facing \<Rightarrow> coords list \<Rightarrow> int \<Rightarrow> exn + int" where
  "walk_path f (c0 # c1 # path) steps =
     exn_bind (move_one_tile f c0 c1) (\<lambda>(actions, f'). walk_path f' (c1 # path) (steps + actions))"
| "walk_path f path steps = Inr steps"

definition find_path_len :: "wisdom \<Rightarrow> coords \<Rightarrow> exn + int" where
  "find_path_len w coords =
     exn_bind (bot_coords w) (\<lambda>bc.
     exn_bind (node (grid w) (fst bc) (snd bc)) (\<lambda>start.
     exn_bind (node (grid w) (fst coords) (snd coords)) (\<lambda>goal.
     let path = find_path start goal (grid w) in
     exn_bind (bot_facing w) (\<lambda>f. walk_path f path 0))))"

text \<open>\<^verbatim>\<open>distance_to_menhir\<close> catches every exception of \<^verbatim>\<open>find_path_len\<close>.\<close>

definition distance_to_menhir :: "wisdom \<Rightarrow> int" where
  "distance_to_menhir w =
     (case find_path_len w (menhir_position (arena w)) of
        Inl e \<Rightarrow> 1000000
      | Inr steps_num \<Rightarrow> steps_num)"

definition lost_health :: "wisdom \<Rightarrow> exn + bool" where
  "lost_health w =
     exn_bind (bot_health w) (\<lambda>h.
     exn_bind (prev_bot_health w) (\<lambda>ph. Inr (h \<noteq> ph)))"

text \<open>
  \<^verbatim>\<open>reach_menhir_before_mist\<close> reads the distance first and then compares it with
  \<^verbatim>\<open>self.arena.mist_radius / 5 - self.t - 30\<close>. That expression is floating-point
  arithmetic on two integers and is the parameter \<open>time_left\<close>: the float64 it gives, or
  the exception of an integer too large for a float. Python compares a float with an
  integer exactly.
\<close>

definition reach_menhir_before_mist :: "(int \<Rightarrow> int \<Rightarrow> exn + real) \<Rightarrow> wisdom \<Rightarrow> exn + bool" where
  "reach_menhir_before_mist time_left w =
     (let distance = distance_to_menhir w in
      exn_bind (time_left (mist_radius (arena w)) (wisdom_t w)) (\<lambda>limit.
        Inr (limit > real_of_int distance)))"

section \<open>Example snapshots\<close>

text \<open>
  Concrete inputs for the statements below: an empty tile, a champion at full health, a
  corridor of three cells whose middle cell is blocked, a shaft of three cells, and a
  footprint of the one cell ahead (when it lies on the grid).
\<close>

definition land :: tile_description where
  "land = \<lparr>tile_type = ''land'', loot = None, character = None, effects = []\<rparr>"

definition champion :: "string \<Rightarrow> string \<Rightarrow> facing \<Rightarrow> champion_description" where
  "champion who wpn f = \<lparr>controller_name = who, health = 5, weapon = wpn, facing = f\<rparr>"

definition corridor :: grid where
  "corridor = \<lparr>width = 3, height = 1, walkable = (\<lambda>c. c \<noteq> (1, 0))\<rparr>"

definition shaft :: grid where
  "shaft = \<lparr>width = 1, height = 3, walkable = (\<lambda>c. True)\<rparr>"

definition cell_ahead :: "grid \<Rightarrow> weapon \<Rightarrow> coords \<Rightarrow> facing \<Rightarrow> coords list" where
  "cell_ahead g wpn pos f = filter (inside g) [add_coords pos (facing_value f)]"

text \<open>
  The agent alone at the left end of the corridor, facing the blocked cell; the menhir
  is at the right end.
\<close>

definition walled_off :: wisdom where
  "walled_off =
     \<lparr>arena = \<lparr>name = ''corridor'', menhir_position = (2, 0), mist_radius = 10,
                cut_positions = cell_ahead corridor\<rparr>,
      knowledge = Some \<lparr>position = (0, 0),
        visible_tiles =
          [((0, 0), land\<lparr>character := Some (champion ''botelka'' ''knife'' RIGHT)\<rparr>)]\<rparr>,
      bot_name = ''botelka'', grid = corridor, prev_knowledge = None, wisdom_t = 1\<rparr>"

text \<open>The next tick in the corridor: the agent has lost two points of health.\<close>

definition wounded :: wisdom where
  "wounded = next_knowledge walled_off
     \<lparr>position = (0, 0),
      visible_tiles =
        [((0, 0), land\<lparr>character := Some ((champion ''botelka'' ''knife'' RIGHT)\<lparr>health := 3\<rparr>)\<rparr>)]\<rparr>"

text \<open>
  The library functions of the examples. The examples take the root of 4 only, which
  \<^verbatim>\<open>np.sqrt\<close> returns as the float 2.0; \<open>root\<close> is the root without rounding, so it is
  \<^verbatim>\<open>np.sqrt\<close> on the squares of small integers and an idealisation of it elsewhere.
  Likewise \<open>time_left_of\<close> is \<^verbatim>\<open>mist_radius / 5 - t - 30\<close> without rounding. A name is
  hashed by its length.
\<close>

definition root :: "int \<Rightarrow> exn + real" where
  "root n = Inr (sqrt (real_of_int n))"

definition time_left_of :: "int \<Rightarrow> int \<Rightarrow> exn + real" where
  "time_left_of radius ticks = Inr (real_of_int radius / 5 - real_of_int ticks - 30)"

definition name_length :: "string \<Rightarrow> int" where
  "name_length n = int (length n)"

text \<open>
  The agent at the top of the shaft, facing up, away from the menhir at the bottom.
\<close>

definition shaft_snapshot :: champion_knowledge where
  "shaft_snapshot =
     \<lparr>position = (0, 0),
      visible_tiles = [((0, 0), land\<lparr>character := Some (champion ''botelka'' ''knife'' UP)\<rparr>)]\<rparr>"

definition shaft_arena :: arena where
  "shaft_arena = \<lparr>name = ''shaft'', menhir_position = (0, 2), mist_radius = 10,
     cut_positions = cell_ahead shaft\<rparr>"

definition in_shaft :: wisdom where
  "in_shaft = \<lparr>arena = shaft_arena, knowledge = Some shaft_snapshot, bot_name = ''botelka'',
     grid = shaft, prev_knowledge = None, wisdom_t = 1\<rparr>"

text \<open>
  The agent at \<open>(0, 0)\<close> with other champions in sight, and with six of them in a row
  to its right.
\<close>

definition enemy_at :: "coords \<Rightarrow> coords \<times> tile_description" where
  "enemy_at c = (c, land\<lparr>character := Some (champion ''enemy'' ''knife'' LEFT)\<rparr>)"

definition watching :: "(coords \<times> tile_description) list \<Rightarrow> wisdom" where
  "watching others = walled_off\<lparr>knowledge := Some
     \<lparr>position = (0, 0),
      visible_tiles =
        ((0, 0), land\<lparr>character := Some (champion ''botelka'' ''knife'' RIGHT)\<rparr>) # others\<rparr>\<rparr>"

definition crowd :: wisdom where
  "crowd = watching
     [enemy_at (1, 0), enemy_at (2, 0), enemy_at (3, 0), enemy_at (4, 0), enemy_at (5, 0),
      enemy_at (6, 0)]"


text \<open>A snapshot of the shaft whose own cell \<open>(0, 0)\<close> is visible and empty.\<close>

definition vacant_snapshot :: champion_knowledge where
  "vacant_snapshot = \<lparr>position = (0, 0), visible_tiles = [((0, 0), land)]\<rparr>"

definition vacant :: wisdom where
  "vacant = in_shaft\<lparr>knowledge := Some vacant_snapshot\<rparr>"

text \<open>
  A footprint of the two cells ahead, and the agent at \<open>(0, 0)\<close> facing right with an
  enemy on the first of them; the second is out of sight.
\<close>

definition two_ahead :: "weapon \<Rightarrow> coords \<Rightarrow> facing \<Rightarrow> coords list" where
  "two_ahead wpn pos f =
     [add_coords pos (facing_value f), add_coords (add_coords pos (facing_value f)) (facing_value f)]"

definition ambush :: wisdom where
  "ambush = (watching [enemy_at (1, 0)])\<lparr>arena :=
     \<lparr>name = ''corridor'', menhir_position = (2, 0), mist_radius = 10,
      cut_positions = two_ahead\<rparr>\<rparr>"

section \<open>Properties\<close>

subsection \<open>The cost of one step\<close>

lemma turning_left_eq: "turning_left f e n = n + int (left_turns f e)"
  by (cases f; cases e) simp_all

lemma turning_right_eq: "turning_right f e n = n + int (right_turns f e)"
  by (cases f; cases e) simp_all

text \<open>
  What \<^verbatim>\<open>move_one_tile\<close> computes: the right-hand count starts at 1, so a target one
  right turn away costs 3, and every other target costs the smaller number of turns
  plus one.
\<close>

lemma move_one_tile_cost:
  assumes "Facing (sub_coords c1 c0) = Inr e"
  shows "move_one_tile f c0 c1 =
    Inr (if right_turns f e = 1 then 3
         else int (min (left_turns f e) (right_turns f e)) + 1, e)"
  using assms
  by (cases f; cases e)
    (simp_all add: move_one_tile_def exn_bind_def turning_left_eq turning_right_eq)

text \<open>
  Claim C1. The claim gives every step between adjacent cells the cost \<open>d + 1\<close>, with
  \<open>d\<close> the smaller of the numbers of left and of right turns to the facing of the
  step. For the agent facing up and the step from \<open>(0, 0)\<close> to \<open>(1, 0)\<close> the facing
  of the step is \<open>RIGHT\<close>, one right turn away (\<open>d = 1\<close>), and \<^verbatim>\<open>move_one_tile\<close>
  returns the cost 3, not 2: it compares three left turns with \<open>1 + 1\<close>.
\<close>

theorem move_one_tile_one_right_turn:
  "move_one_tile UP (0, 0) (1, 0) = Inr (3, RIGHT)
   \<and> Facing (sub_coords (1, 0) (0, 0)) = Inr RIGHT
   \<and> min (left_turns UP RIGHT) (right_turns UP RIGHT) = 1"
  by (simp add: move_one_tile_def Facing_def sub_coords_def exn_bind_def)

subsection \<open>The distance to the menhir\<close>

lemma find_path_corridor: "find_path (0, 0) (2, 0) corridor = []"
  by (simp add: find_path_def corridor_def neighbors_def inside_def)

text \<open>
  Claim C2. The claim gives an unreachable menhir a distance above every cost a path
  can have. In the corridor the blocked middle cell cuts the menhir off, the finder
  returns the empty path, the loop of \<^verbatim>\<open>find_path_len\<close> does not run, nothing is
  raised, and \<^verbatim>\<open>distance_to_menhir\<close> returns 0 instead of 1000000.
\<close>

theorem distance_to_menhir_walled_off:
  "find_path (0, 0) (menhir_position (arena walled_off)) (grid walled_off) = []
   \<and> find_path_len walled_off (menhir_position (arena walled_off)) = Inr 0
   \<and> distance_to_menhir walled_off = 0"
  by (simp add: distance_to_menhir_def find_path_len_def walled_off_def bot_coords_def
      the_knowledge_def exn_bind_def node_def find_path_def corridor_def neighbors_def
      inside_def bot_facing_def standing_character_def getitem_def land_def champion_def)

subsection \<open>Visible enemies\<close>

text \<open>
  Claim C5. The claim makes \<^verbatim>\<open>enemies_visible\<close> false when the agent on its own cell
  is the only occupant in sight. The property tests every visible tile for an
  occupant and does not leave the own cell out (as \<^verbatim>\<open>get_state\<close> and
  \<^verbatim>\<open>relative_enemies_positions\<close> do): alone in the corridor, the agent sees an enemy.
\<close>

theorem enemies_visible_alone:
  "map fst (visible_tiles (the (knowledge walled_off))) = [position (the (knowledge walled_off))]
   \<and> enemies_visible walled_off = Inr True"
  by (simp add: enemies_visible_def walled_off_def the_knowledge_def exn_bind_def land_def)

subsection \<open>Start equals goal\<close>

lemma find_path_same: "find_path p p g = [p]"
  by (simp add: find_path_def)

text \<open>
  Claim C8. For an agent standing on a cell of the grid, whatever its facing, the finder
  returns the path of the one cell from that cell to itself, and \<^verbatim>\<open>find_path_len\<close>
  returns 0 for it: the loop over the steps of the path does not run.
\<close>

theorem find_path_len_start_is_goal:
  assumes "knowledge w = Some kn" and "inside (grid w) (position kn)"
    and "standing_character kn (position kn) = Inr c"
  shows "find_path (position kn) (position kn) (grid w) = [position kn]
    \<and> find_path_len w (position kn) = Inr 0"
  using assms
  by (simp add: find_path_same find_path_len_def bot_coords_def the_knowledge_def exn_bind_def
      node_def bot_facing_def)

theorem find_path_len_start_is_goal_witness:
  "find_path (0, 0) (0, 0) corridor = [(0, 0)] \<and> find_path_len walled_off (0, 0) = Inr 0"
proof -
  let ?kn = "the (knowledge walled_off)"
  have k: "knowledge walled_off = Some ?kn"
    by (simp add: walled_off_def)
  have i: "inside (grid walled_off) (position ?kn)"
    by (simp add: walled_off_def corridor_def inside_def)
  have c: "standing_character ?kn (position ?kn) = Inr (champion ''botelka'' ''knife'' RIGHT)"
    by (simp add: walled_off_def standing_character_def getitem_def exn_bind_def land_def)
  show ?thesis
    using find_path_len_start_is_goal [OF k i c] by (simp add: walled_off_def)
qed

subsection \<open>Lost health\<close>

text \<open>
  Claim C9. With the agent's occupant \<open>c\<close> on its own cell in the current snapshot:
  on the first tick (no previous snapshot) \<^verbatim>\<open>lost_health\<close> is true exactly when the
  health of \<open>c\<close> differs from \<open>MAX_HEALTH\<close>; with a previous snapshot whose own cell
  holds the occupant \<open>pc\<close>, it is true exactly when the health of \<open>c\<close> differs from
  the health of \<open>pc\<close>.
\<close>

theorem lost_health_iff:
  assumes "knowledge w = Some kn" and "standing_character kn (position kn) = Inr c"
  shows "(prev_knowledge w = None \<longrightarrow> lost_health w = Inr (health c \<noteq> MAX_HEALTH))
    \<and> (\<forall>pk pc. prev_knowledge w = Some pk \<longrightarrow> standing_character pk (position pk) = Inr pc
          \<longrightarrow> lost_health w = Inr (health c \<noteq> health pc))"
  using assms
  by (simp add: lost_health_def bot_health_def prev_bot_health_def bot_coords_def
      prev_bot_coords_def the_knowledge_def the_prev_knowledge_def exn_bind_def)

theorem lost_health_iff_witness:
  "lost_health walled_off = Inr False \<and> lost_health wounded = Inr True"
proof -
  let ?c = "champion ''botelka'' ''knife'' RIGHT"
  let ?kn = "the (knowledge walled_off)"
  let ?kn' = "the (knowledge wounded)"
  have k: "knowledge walled_off = Some ?kn" and p: "prev_knowledge walled_off = None"
    by (simp_all add: walled_off_def)
  have c: "standing_character ?kn (position ?kn) = Inr ?c"
    by (simp add: walled_off_def standing_character_def getitem_def exn_bind_def land_def)
  have k': "knowledge wounded = Some ?kn'" and p': "prev_knowledge wounded = Some ?kn"
    by (simp_all add: wounded_def next_knowledge_def walled_off_def)
  have c': "standing_character ?kn' (position ?kn') = Inr (?c\<lparr>health := 3\<rparr>)"
    by (simp add: wounded_def next_knowledge_def standing_character_def getitem_def
        exn_bind_def land_def)
  have "lost_health walled_off = Inr (health ?c \<noteq> MAX_HEALTH)"
    using lost_health_iff [OF k c] p by simp
  moreover have "lost_health wounded = Inr (health (?c\<lparr>health := 3\<rparr>) \<noteq> health ?c)"
    using lost_health_iff [OF k' c'] p' c by simp
  ultimately show ?thesis
    by (simp add: champion_def MAX_HEALTH_def)
qed

subsection \<open>Unrecognised weapons\<close>






subsection \<open>Lookups of cells that may be out of sight\<close>

text \<open>
  The scan of \<^verbatim>\<open>any\<close> passes the cells that are visible and empty; what it does is
  decided by the first cell that is not: nothing left gives false, a cell out of
  sight raises \<^verbatim>\<open>KeyError\<close>, an occupied cell gives true.
\<close>

lemma any_character_scan:
  "any_character tiles cells =
     (case dropWhile (\<lambda>cell. case map_of tiles cell of None \<Rightarrow> False
                              | Some tile \<Rightarrow> character tile = None) cells of
        [] \<Rightarrow> Inr False
      | cell # rest \<Rightarrow> if map_of tiles cell = None then Inl KeyError else Inr True)"
  by (induction cells) (auto simp: getitem_def exn_bind_def split: option.splits)

text \<open>
  Claim C10. The claim lets \<^verbatim>\<open>can_attack_player\<close> return a boolean only when every
  cell of the footprint is visible. With an enemy on the first cell of the footprint
  and the second cell out of sight, the property returns true: the scan stops at the
  enemy and never looks the second cell up.
\<close>

theorem can_attack_player_stops_early:
  "cut_positions (arena ambush) Knife (0, 0) RIGHT = [(1, 0), (2, 0)]
   \<and> map_of (visible_tiles (the (knowledge ambush))) (2, 0) = None
   \<and> can_attack_player ambush = Inr True"
  by (simp add: can_attack_player_def ambush_def watching_def enemy_at_def walled_off_def
      two_ahead_def add_coords_def bot_weapon_def bot_coords_def bot_facing_def
      the_knowledge_def standing_character_def getitem_def exn_bind_def land_def champion_def
      WEAPONS_def)

text \<open>
  Claim C10, amended. With the agent's occupant on its own cell and its weapon in the
  catalog: \<^verbatim>\<open>can_attack_player\<close> looks the cells of the footprint up in order, without
  a guard, and stops at the first occupied one; it raises \<^verbatim>\<open>KeyError\<close> exactly when a
  cell out of sight comes before every occupied cell, returns true when an occupied
  cell comes first, and false when all cells are visible and empty.
  \<^verbatim>\<open>will_pick_up_worse_weapon\<close> raises \<^verbatim>\<open>KeyError\<close> when the cell ahead is out of
  sight and returns a boolean otherwise: whether that cell has loot of a rank below
  the own weapon's.
\<close>

theorem unguarded_lookups:
  assumes "knowledge w = Some kn" and "standing_character kn (position kn) = Inr c"
    and "WEAPONS (weapon c) = Some wpn"
  shows "can_attack_player w =
      (case dropWhile (\<lambda>cell. case map_of (visible_tiles kn) cell of None \<Rightarrow> False
                               | Some tile \<Rightarrow> character tile = None)
              (cut_positions (arena w) wpn (position kn) (facing c)) of
         [] \<Rightarrow> Inr False
       | cell # rest \<Rightarrow>
           if map_of (visible_tiles kn) cell = None then Inl KeyError else Inr True)
    \<and> will_pick_up_worse_weapon w =
      (case map_of (visible_tiles kn) (add_coords (position kn) (facing_value (facing c))) of
         None \<Rightarrow> Inl KeyError
       | Some tile \<Rightarrow>
           Inr (case loot tile of None \<Rightarrow> False
                | Some n \<Rightarrow> weapon_ranking (WEAPONS n) < weapon_ranking (Some wpn)))"
proof
  show "can_attack_player w =
      (case dropWhile (\<lambda>cell. case map_of (visible_tiles kn) cell of None \<Rightarrow> False
                               | Some tile \<Rightarrow> character tile = None)
              (cut_positions (arena w) wpn (position kn) (facing c)) of
         [] \<Rightarrow> Inr False
       | cell # rest \<Rightarrow>
           if map_of (visible_tiles kn) cell = None then Inl KeyError else Inr True)"
    using assms
    by (simp add: can_attack_player_def bot_weapon_def bot_coords_def bot_facing_def
        the_knowledge_def exn_bind_def any_character_scan)
next
  show "will_pick_up_worse_weapon w =
      (case map_of (visible_tiles kn) (add_coords (position kn) (facing_value (facing c))) of
         None \<Rightarrow> Inl KeyError
       | Some tile \<Rightarrow>
           Inr (case loot tile of None \<Rightarrow> False
                | Some n \<Rightarrow> weapon_ranking (WEAPONS n) < weapon_ranking (Some wpn)))"
    using assms
    by (simp add: will_pick_up_worse_weapon_def bot_weapon_def bot_coords_def bot_facing_def
        the_knowledge_def exn_bind_def getitem_def split: option.splits)
qed

theorem unguarded_lookups_witness:
  "can_attack_player ambush = Inr True \<and> will_pick_up_worse_weapon ambush = Inr False
   \<and> can_attack_player walled_off = Inl KeyError
   \<and> will_pick_up_worse_weapon walled_off = Inl KeyError"
proof -
  let ?c = "champion ''botelka'' ''knife'' RIGHT"
  let ?ka = "the (knowledge ambush)"
  let ?kw = "the (knowledge walled_off)"
  have ka: "knowledge ambush = Some ?ka" and kw: "knowledge walled_off = Some ?kw"
    by (simp_all add: ambush_def watching_def walled_off_def)
  have ca: "standing_character ?ka (position ?ka) = Inr ?c"
    by (simp add: ambush_def watching_def standing_character_def getitem_def exn_bind_def
        land_def)
  have cw: "standing_character ?kw (position ?kw) = Inr ?c"
    by (simp add: walled_off_def standing_character_def getitem_def exn_bind_def land_def)
  have wp: "WEAPONS (weapon ?c) = Some Knife"
    by (simp add: WEAPONS_def champion_def)
  have "can_attack_player ambush = Inr True \<and> will_pick_up_worse_weapon ambush = Inr False"
    using unguarded_lookups [OF ka ca wp]
    by (simp add: ambush_def watching_def enemy_at_def two_ahead_def add_coords_def land_def
        champion_def)
  moreover
  have "can_attack_player walled_off = Inl KeyError
    \<and> will_pick_up_worse_weapon walled_off = Inl KeyError"
    using unguarded_lookups [OF kw cw wp]
    by (simp add: walled_off_def cell_ahead_def corridor_def inside_def add_coords_def land_def
        champion_def)
  ultimately show ?thesis
    by blast
qed

subsection \<open>The distance field of the state\<close>

lemma get_state_shaft:
  "get_state root name_length shaft_snapshot shaft_arena 1 =
     Inr \<lparr>st_map_name = 5, st_x = 0, st_y = 0, st_health = 5, st_visible_enemies = 0,
          st_can_attack_enemy = False, st_facing = 0, st_weapon = 3,
          st_distance_to_menhir = 2, st_tick = 1\<rparr>"
  by (simp add: get_state_def shaft_snapshot_def shaft_arena_def land_def champion_def
      WEAPONS_def WEAPON_TO_INT_def exn_bind_def cell_ahead_def add_coords_def inside_def
      shaft_def sub_coords_def name_length_def root_def)

lemma find_path_shaft: "find_path (0, 0) (0, 2) shaft = [(0, 0), (0, 1), (0, 2)]"
  by (simp add: find_path_def shaft_def neighbors_def inside_def)

lemma distance_to_menhir_shaft: "distance_to_menhir in_shaft = 4"
proof -
  have "node shaft 0 0 = Inr (0, 0)" and "node shaft 0 2 = Inr (0, 2)"
    by (simp_all add: node_def inside_def shaft_def)
  then show ?thesis
    by (simp add: distance_to_menhir_def find_path_len_def in_shaft_def shaft_arena_def
        shaft_snapshot_def bot_coords_def the_knowledge_def exn_bind_def
        find_path_shaft bot_facing_def standing_character_def getitem_def land_def
        champion_def move_one_tile_def Facing_def sub_coords_def)
qed

text \<open>
  Claim C3. The claim makes the distance field of the state the path cost to the menhir.
  At the top of the shaft, facing up, \<^verbatim>\<open>get_state\<close> takes the root of
  \<open>0 ^ 2 + (- 2) ^ 2 = 4\<close> and gives the distance 2, the length of the straight line to
  the menhir, where the path cost computed by \<^verbatim>\<open>distance_to_menhir\<close> is 4 (two turns
  and two moves).
\<close>

theorem get_state_distance_not_path_cost:
  "root 4 = Inr 2
   \<and> map_sum id st_distance_to_menhir
       (get_state root name_length shaft_snapshot (arena in_shaft) (wisdom_t in_shaft)) = Inr 2
   \<and> knowledge in_shaft = Some shaft_snapshot
   \<and> distance_to_menhir in_shaft = 4"
  using get_state_shaft distance_to_menhir_shaft by (simp add: in_shaft_def root_def)

text \<open>
  Claim C3, amended. Whenever \<^verbatim>\<open>get_state\<close> returns a state, its distance field is
  what \<^verbatim>\<open>np.sqrt\<close> returns on the sum of the squares of the two coordinate differences
  between the own position and the menhir: the Euclidean distance as a float, whatever
  the grid and the facing.
\<close>

theorem get_state_distance_euclidean:
  assumes "get_state np_sqrt hash kn ar tick = Inr s"
  shows "np_sqrt ((fst (position kn) - fst (menhir_position ar)) ^ 2
                  + (snd (position kn) - snd (menhir_position ar)) ^ 2)
         = Inr (st_distance_to_menhir s)"
  using assms
  by (auto simp: get_state_def exn_bind_def sub_coords_def Let_def
      split: sum.splits option.splits)

theorem get_state_distance_euclidean_witness:
  "get_state root name_length shaft_snapshot shaft_arena 1 =
     Inr \<lparr>st_map_name = 5, st_x = 0, st_y = 0, st_health = 5, st_visible_enemies = 0,
          st_can_attack_enemy = False, st_facing = 0, st_weapon = 3,
          st_distance_to_menhir = 2, st_tick = 1\<rparr>
   \<and> root ((0 - 0) ^ 2 + (0 - 2) ^ 2) = Inr 2"
  using get_state_distance_euclidean [OF get_state_shaft] get_state_shaft
  by (simp add: shaft_snapshot_def shaft_arena_def)

subsection \<open>Relative positions of the enemies\<close>

text \<open>
  The loop of \<^verbatim>\<open>relative_enemies_positions\<close> replaces the slots from \<open>2 * i\<close> on by
  the coordinates of the pairs, as long as they fit.
\<close>

lemma take_two_updates:
  assumes "Suc n < length xs"
  shows "take (Suc (Suc n)) (xs[n := a, Suc n := b]) = take n xs @ [a, b]"
  using assms by (simp add: take_Suc_conv_app_nth)

lemma fill_result_eq:
  assumes "2 * (i + length cs) \<le> length result"
  shows "fill_result cs i result =
    Inr (take (2 * i) result @ concat (map (\<lambda>c. [fst c, snd c]) cs)
         @ drop (2 * (i + length cs)) result)"
  using assms
proof (induction cs arbitrary: i result)
  case Nil
  then show ?case by simp
next
  case (Cons c cs)
  let ?r = "result[2 * i := fst c, Suc (2 * i) := snd c]"
  from Cons.prems have len: "Suc (2 * i) < length result"
    by simp
  from Cons.prems have "2 * (Suc i + length cs) \<le> length ?r"
    by simp
  then have "fill_result cs (Suc i) ?r =
      Inr (take (2 * Suc i) ?r @ concat (map (\<lambda>c. [fst c, snd c]) cs)
           @ drop (2 * (Suc i + length cs)) ?r)"
    by (rule Cons.IH)
  moreover have "take (2 * Suc i) ?r = take (2 * i) result @ [fst c, snd c]"
    using take_two_updates [OF len] by simp
  moreover have "drop (2 * (Suc i + length cs)) ?r = drop (2 * (i + length (c # cs))) result"
    by simp
  ultimately show ?case
    using len by (simp add: setitem_def exn_bind_def)
qed

text \<open>
  With at most five other champions in sight the property returns their offsets in the
  order of the dictionary of visible tiles, followed by zeros up to the length ten.
\<close>

lemma relative_enemies_positions_map_order:
  assumes "knowledge w = Some kn" and "length (enemies_coords kn (position kn)) \<le> 5"
  shows "relative_enemies_positions w =
    Inr (concat (map (\<lambda>c. [fst c - fst (position kn), snd c - snd (position kn)])
                   (enemies_coords kn (position kn)))
         @ replicate (10 - 2 * length (enemies_coords kn (position kn))) 0)"
proof -
  let ?rel = "map (\<lambda>enemy_coord. sub_coords enemy_coord (position kn))
    (enemies_coords kn (position kn))"
  have "2 * (0 + length ?rel) \<le> length (replicate 10 (0 :: int))"
    using assms(2) by simp
  then have "fill_result ?rel 0 (replicate 10 0) =
      Inr (take (2 * 0) (replicate 10 0) @ concat (map (\<lambda>c. [fst c, snd c]) ?rel)
           @ drop (2 * (0 + length ?rel)) (replicate 10 0))"
    by (rule fill_result_eq)
  then show ?thesis
    using assms(1)
    by (simp add: relative_enemies_positions_def the_knowledge_def bot_coords_def exn_bind_def
        sub_coords_def comp_def)
qed

text \<open>With more pairs than slots the loop raises \<^verbatim>\<open>IndexError\<close>.\<close>

lemma fill_result_overflow:
  assumes "length result < 2 * (i + length cs)" and "2 * i \<le> length result"
  shows "fill_result cs i result = Inl IndexError"
  using assms
proof (induction cs arbitrary: i result)
  case Nil
  then show ?case by simp
next
  case (Cons c cs)
  then show ?case
    by (auto simp: setitem_def exn_bind_def)
qed

text \<open>
  Claim C4. The claim makes \<^verbatim>\<open>relative_enemies_positions\<close>, with more than five other
  occupants in sight, return the offsets of the five nearest. With more than five in
  sight the property returns no list at all: the list of ten slots has room for five
  pairs, the loop runs over all the occupants, and the write of the sixth pair raises
  \<^verbatim>\<open>IndexError\<close>.
\<close>

theorem relative_enemies_positions_overflow:
  assumes "knowledge w = Some kn" and "5 < length (enemies_coords kn (position kn))"
  shows "relative_enemies_positions w = Inl IndexError"
proof -
  let ?rel = "map (\<lambda>enemy_coord. sub_coords enemy_coord (position kn))
    (enemies_coords kn (position kn))"
  have "length (replicate 10 (0 :: int)) < 2 * (0 + length ?rel)"
    and "2 * 0 \<le> length (replicate 10 (0 :: int))"
    using assms(2) by simp_all
  then have "fill_result ?rel 0 (replicate 10 0) = Inl IndexError"
    by (rule fill_result_overflow)
  then show ?thesis
    using assms(1)
    by (simp add: relative_enemies_positions_def the_knowledge_def bot_coords_def exn_bind_def)
qed

theorem relative_enemies_positions_overflow_witness:
  "enemies_coords (the (knowledge crowd)) (position (the (knowledge crowd)))
     = [(1, 0), (2, 0), (3, 0), (4, 0), (5, 0), (6, 0)]
   \<and> relative_enemies_positions crowd = Inl IndexError"
proof -
  let ?kn = "the (knowledge crowd)"
  have k: "knowledge crowd = Some ?kn"
    by (simp add: crowd_def watching_def)
  have e: "enemies_coords ?kn (position ?kn) = [(1, 0), (2, 0), (3, 0), (4, 0), (5, 0), (6, 0)]"
    by (simp add: crowd_def watching_def enemy_at_def enemies_coords_def land_def)
  then have l: "5 < length (enemies_coords ?kn (position ?kn))"
    by simp
  show ?thesis
    using relative_enemies_positions_overflow [OF k l] e by simp
qed

subsection \<open>The own cell without its occupant\<close>

lemma get_state_vacant:
  "get_state root name_length vacant_snapshot shaft_arena 1 =
     Inr \<lparr>st_map_name = 5, st_x = 0, st_y = 0, st_health = 5, st_visible_enemies = 0,
          st_can_attack_enemy = False, st_facing = 0, st_weapon = 3,
          st_distance_to_menhir = 2, st_tick = 1\<rparr>"
  by (simp add: get_state_def vacant_snapshot_def shaft_arena_def land_def
      WEAPONS_def WEAPON_TO_INT_def exn_bind_def cell_ahead_def add_coords_def inside_def
      shaft_def sub_coords_def name_length_def root_def)

text \<open>
  When the own weapon cannot be read, \<^verbatim>\<open>better_weapon_visible\<close> fails at the first
  visible tile with loot, and returns false when no visible tile has loot.
\<close>

lemma better_weapon_among_no_weapon:
  assumes "bot_weapon w = Inl e"
  shows "better_weapon_among w tiles =
    (if list_ex (\<lambda>tile. loot tile \<noteq> None) tiles then Inl e else Inr False)"
  using assms by (induction tiles) (auto simp: exn_bind_def split: option.splits)

text \<open>
  Claim C7. The claim makes every operation that reads the own facing, health or weapon
  fail when the own cell has no occupant, \<^verbatim>\<open>get_state\<close> included. On the snapshot
  whose own cell is empty \<^verbatim>\<open>get_state\<close> returns a state, in which health 5, facing 0
  (up) and weapon 3 (the knife) stand in for the missing occupant, and
  \<^verbatim>\<open>distance_to_menhir\<close> returns 1000000.
\<close>

theorem get_state_defaults_when_vacant:
  "map_of (visible_tiles vacant_snapshot) (position vacant_snapshot) = Some land
   \<and> character land = None
   \<and> get_state root name_length vacant_snapshot shaft_arena 1 =
       Inr \<lparr>st_map_name = 5, st_x = 0, st_y = 0, st_health = 5, st_visible_enemies = 0,
            st_can_attack_enemy = False, st_facing = 0, st_weapon = 3,
            st_distance_to_menhir = 2, st_tick = 1\<rparr>
   \<and> knowledge vacant = Some vacant_snapshot
   \<and> distance_to_menhir vacant = 1000000"
  using get_state_vacant
  by (simp add: vacant_snapshot_def land_def vacant_def distance_to_menhir_def
      find_path_len_def in_shaft_def shaft_arena_def bot_coords_def the_knowledge_def
      exn_bind_def node_def inside_def shaft_def bot_facing_def standing_character_def
      getitem_def)

text \<open>
  Claim C7, amended. When the own cell is visible and has no occupant, the operations
  that read the own facing, health or weapon behave as follows. The properties
  \<^verbatim>\<open>bot_facing\<close>, \<^verbatim>\<open>bot_health\<close>, \<^verbatim>\<open>bot_weapon\<close>, \<^verbatim>\<open>lost_health\<close>,
  \<^verbatim>\<open>will_pick_up_worse_weapon\<close> and \<^verbatim>\<open>can_attack_player\<close> fail with
  \<^verbatim>\<open>AssertionError\<close>. \<^verbatim>\<open>better_weapon_visible\<close> fails with \<^verbatim>\<open>AssertionError\<close> when
  some visible tile has loot and returns false otherwise. \<^verbatim>\<open>find_path_len\<close> fails:
  with \<^verbatim>\<open>AssertionError\<close> when the own cell and the target are on the grid, with
  \<^verbatim>\<open>IndexError\<close> otherwise. Two operations do not fail: \<^verbatim>\<open>distance_to_menhir\<close>
  catches the failure and returns 1000000, which \<^verbatim>\<open>reach_menhir_before_mist\<close> then
  compares with its limit; and \<^verbatim>\<open>get_state\<close> goes on with the knife, the facing up
  and the health 5, and returns the state built from these whenever the cells of the
  knife's footprint are visible and \<^verbatim>\<open>np.sqrt\<close> returns.
\<close>

theorem missing_occupant:
  assumes "knowledge w = Some kn" and "getitem (visible_tiles kn) (position kn) = Inr tile"
    and "character tile = None"
  shows "bot_facing w = Inl AssertionError \<and> bot_health w = Inl AssertionError
    \<and> bot_weapon w = Inl AssertionError \<and> lost_health w = Inl AssertionError
    \<and> will_pick_up_worse_weapon w = Inl AssertionError
    \<and> can_attack_player w = Inl AssertionError
    \<and> better_weapon_visible w =
        (if list_ex (\<lambda>tile. loot tile \<noteq> None) (map snd (visible_tiles kn))
         then Inl AssertionError else Inr False)
    \<and> (\<forall>coords. find_path_len w coords =
          Inl (if inside (grid w) (position kn) \<and> inside (grid w) coords
               then AssertionError else IndexError))
    \<and> distance_to_menhir w = 1000000
    \<and> (\<forall>time_left. reach_menhir_before_mist time_left w =
          exn_bind (time_left (mist_radius (arena w)) (wisdom_t w))
            (\<lambda>limit. Inr (limit > 1000000)))
    \<and> (\<forall>np_sqrt hash ar tick. get_state np_sqrt hash kn ar tick =
          exn_bind (any_character (visible_tiles kn) (cut_positions ar Knife (position kn) UP))
            (\<lambda>can_attack_enemy.
          exn_bind (np_sqrt ((fst (position kn) - fst (menhir_position ar)) ^ 2
                             + (snd (position kn) - snd (menhir_position ar)) ^ 2))
            (\<lambda>menhir_distance.
              Inr \<lparr>st_map_name = hash (name ar), st_x = fst (position kn),
                   st_y = snd (position kn), st_health = 5,
                   st_visible_enemies = int (length (enemies_coords kn (position kn))),
                   st_can_attack_enemy = can_attack_enemy, st_facing = 0, st_weapon = 3,
                   st_distance_to_menhir = menhir_distance, st_tick = tick\<rparr>)))"
proof -
  from assms(2) have m: "map_of (visible_tiles kn) (position kn) = Some tile"
    by (simp add: getitem_def split: option.splits)
  from assms have s: "standing_character kn (position kn) = Inl AssertionError"
    by (simp add: standing_character_def exn_bind_def)
  have f: "bot_facing w = Inl AssertionError"
    using assms(1) s by (simp add: bot_facing_def bot_coords_def the_knowledge_def exn_bind_def)
  have h: "bot_health w = Inl AssertionError"
    using assms(1) s by (simp add: bot_health_def bot_coords_def the_knowledge_def exn_bind_def)
  have wp: "bot_weapon w = Inl AssertionError"
    using assms(1) s by (simp add: bot_weapon_def bot_coords_def the_knowledge_def exn_bind_def)
  have l: "lost_health w = Inl AssertionError"
    using h by (simp add: lost_health_def exn_bind_def)
  have p: "will_pick_up_worse_weapon w = Inl AssertionError"
    using assms(1) f
    by (simp add: will_pick_up_worse_weapon_def bot_coords_def the_knowledge_def exn_bind_def)
  have c: "can_attack_player w = Inl AssertionError"
    using wp by (simp add: can_attack_player_def exn_bind_def)
  have b: "better_weapon_visible w =
        (if list_ex (\<lambda>tile. loot tile \<noteq> None) (map snd (visible_tiles kn))
         then Inl AssertionError else Inr False)"
    using assms(1) better_weapon_among_no_weapon [OF wp]
    by (simp add: better_weapon_visible_def the_knowledge_def exn_bind_def)
  have fp: "find_path_len w coords =
          Inl (if inside (grid w) (position kn) \<and> inside (grid w) coords
               then AssertionError else IndexError)" for coords
    using assms(1) f
    by (simp add: find_path_len_def bot_coords_def the_knowledge_def exn_bind_def node_def)
  have d: "distance_to_menhir w = 1000000"
    by (simp add: distance_to_menhir_def fp)
  have r: "reach_menhir_before_mist time_left w =
          exn_bind (time_left (mist_radius (arena w)) (wisdom_t w))
            (\<lambda>limit. Inr (limit > 1000000))" for time_left
    by (simp add: reach_menhir_before_mist_def d)
  have g: "get_state np_sqrt hash kn ar tick =
          exn_bind (any_character (visible_tiles kn) (cut_positions ar Knife (position kn) UP))
            (\<lambda>can_attack_enemy.
          exn_bind (np_sqrt ((fst (position kn) - fst (menhir_position ar)) ^ 2
                             + (snd (position kn) - snd (menhir_position ar)) ^ 2))
            (\<lambda>menhir_distance.
              Inr \<lparr>st_map_name = hash (name ar), st_x = fst (position kn),
                   st_y = snd (position kn), st_health = 5,
                   st_visible_enemies = int (length (enemies_coords kn (position kn))),
                   st_can_attack_enemy = can_attack_enemy, st_facing = 0, st_weapon = 3,
                   st_distance_to_menhir = menhir_distance, st_tick = tick\<rparr>))"
    for np_sqrt hash ar tick
    using m assms(3)
    by (simp add: get_state_def WEAPONS_def WEAPON_TO_INT_def exn_bind_def sub_coords_def
        Let_def enemies_coords_def split: sum.splits)
  from f h wp l p c b fp d r g show ?thesis
    by blast
qed

theorem missing_occupant_witness:
  "bot_facing vacant = Inl AssertionError \<and> bot_health vacant = Inl AssertionError
   \<and> bot_weapon vacant = Inl AssertionError \<and> lost_health vacant = Inl AssertionError
   \<and> will_pick_up_worse_weapon vacant = Inl AssertionError
   \<and> can_attack_player vacant = Inl AssertionError
   \<and> better_weapon_visible vacant = Inr False
   \<and> find_path_len vacant (0, 2) = Inl AssertionError
   \<and> find_path_len vacant (0, 3) = Inl IndexError
   \<and> distance_to_menhir vacant = 1000000
   \<and> reach_menhir_before_mist time_left_of vacant = Inr False
   \<and> get_state root name_length vacant_snapshot shaft_arena 1 =
       Inr \<lparr>st_map_name = 5, st_x = 0, st_y = 0, st_health = 5, st_visible_enemies = 0,
            st_can_attack_enemy = False, st_facing = 0, st_weapon = 3,
            st_distance_to_menhir = 2, st_tick = 1\<rparr>"
proof -
  have k: "knowledge vacant = Some vacant_snapshot"
    by (simp add: vacant_def)
  have g: "getitem (visible_tiles vacant_snapshot) (position vacant_snapshot) = Inr land"
    by (simp add: vacant_snapshot_def getitem_def)
  have c: "character land = None"
    by (simp add: land_def)
  note m = missing_occupant [OF k g c]
  have i: "inside (grid vacant) (position vacant_snapshot)" "inside (grid vacant) (0, 2)"
    "\<not> inside (grid vacant) (0, 3)"
    by (simp_all add: vacant_def in_shaft_def shaft_def inside_def vacant_snapshot_def)
  have "find_path_len vacant (0, 2) = Inl AssertionError"
    and "find_path_len vacant (0, 3) = Inl IndexError"
    using m i by simp_all
  moreover have "better_weapon_visible vacant = Inr False"
    using m by (simp add: vacant_snapshot_def land_def)
  moreover have "reach_menhir_before_mist time_left_of vacant = Inr False"
    using m by (simp add: time_left_of_def exn_bind_def vacant_def in_shaft_def shaft_arena_def)
  moreover have "get_state root name_length vacant_snapshot shaft_arena 1 =
       Inr \<lparr>st_map_name = 5, st_x = 0, st_y = 0, st_health = 5, st_visible_enemies = 0,
            st_can_attack_enemy = False, st_facing = 0, st_weapon = 3,
            st_distance_to_menhir = 2, st_tick = 1\<rparr>"
    using m
    by (simp add: vacant_snapshot_def shaft_arena_def exn_bind_def cell_ahead_def
        add_coords_def inside_def shaft_def name_length_def enemies_coords_def land_def
        root_def)
  ultimately show ?thesis
    using m by simp
qed

end
